theory Spec2Isabelle
  imports Complex_Main
begin

section \<open>The edit session of the photo editor (App.tsx)\<close>

text \<open>
  The component \<open>App\<close> keeps its whole session in React state cells. The model
  collects the cells in one record; every handler of the source becomes a function from
  the state its closure captured to the state after its setters have run. Numbers of the
  source that carry fractions (crop rectangles, pointer offsets, scale factors) are
  exact rationals here; a committed raster (a \<open>File\<close>) is a value of an arbitrary
  type \<open>'r\<close>, since no handler looks inside one.
\<close>

subsection \<open>Data\<close>

datatype AppMode = start | generate | edit

datatype Tab = retouch | adjust | filters | crop_tab | text_tab | layers_tab

datatype layer_type = text_kind

text \<open>The interface \<open>TextLayer\<close>; \<open>position\<close> is the pair \<open>(x, y)\<close>.\<close>

record TextLayer =
  id_l :: string
  type_l :: layer_type
  content :: string
  font :: string
  size_l :: int
  color :: string
  position :: "rat \<times> rat"
  opacity :: rat
  visible :: bool

text \<open>\<open>Crop\<close> and \<open>PixelCrop\<close> of react-image-crop: a rectangle in display pixels.\<close>

record CropRect =
  crop_x :: rat
  crop_y :: rat
  crop_width :: rat
  crop_height :: rat

record 'r app_state =
  mode :: AppMode
  history :: "'r list"
  historyIndex :: int
  prompt :: string
  isLoading :: bool
  error :: "string option"
  editHotspot :: "(int \<times> int) option"
  displayHotspot :: "(rat \<times> rat) option"
  activeTab :: Tab
  crop :: "CropRect option"
  completedCrop :: "CropRect option"
  aspect :: "rat option"
  layers :: "TextLayer list"
  selectedLayerId :: "string option"

subsection \<open>History\<close>

text \<open>
  \<open>history[historyIndex] ?? null\<close>: an index outside the array (the initial
  \<open>-1\<close> included) reads \<open>undefined\<close>, which \<open>??\<close> turns into \<open>null\<close>.
\<close>

definition currentImage :: "'r app_state \<Rightarrow> 'r option" where
  "currentImage s =
     (if 0 \<le> historyIndex s \<and> historyIndex s < int (length (history s))
      then Some (history s ! nat (historyIndex s)) else None)"

definition originalImage :: "'r app_state \<Rightarrow> 'r option" where
  "originalImage s = (case history s of [] \<Rightarrow> None | r # _ \<Rightarrow> Some r)"

definition canUndo :: "'r app_state \<Rightarrow> bool" where
  "canUndo s = (historyIndex s > 0)"

definition canRedo :: "'r app_state \<Rightarrow> bool" where
  "canRedo s = (historyIndex s < int (length (history s)) - 1)"

text \<open>
  \<open>Array.prototype.slice(0, e)\<close>: a negative end counts from the end of the array, and
  the end is clamped to the array.
\<close>

definition slice0 :: "'a list \<Rightarrow> int \<Rightarrow> 'a list" where
  "slice0 xs e =
     (let len = int (length xs);
          final = (if e < 0 then max (len + e) 0 else min e len)
      in take (nat final) xs)"

definition addImageToHistory :: "'r \<Rightarrow> 'r app_state \<Rightarrow> 'r app_state" where
  "addImageToHistory newImageFile s =
     (let newHistory = slice0 (history s) (historyIndex s + 1) @ [newImageFile]
      in s\<lparr>history := newHistory,
           historyIndex := int (length newHistory) - 1,
           crop := None,
           completedCrop := None,
           layers := [],
           selectedLayerId := None\<rparr>)"

definition startNewHistoryWithFile :: "'r \<Rightarrow> 'r app_state \<Rightarrow> 'r app_state" where
  "startNewHistoryWithFile file s =
     s\<lparr>error := None,
       history := [file],
       historyIndex := 0,
       editHotspot := None,
       displayHotspot := None,
       activeTab := retouch,
       crop := None,
       completedCrop := None,
       mode := edit,
       layers := [],
       selectedLayerId := None\<rparr>"

definition handleUndo :: "'r app_state \<Rightarrow> 'r app_state" where
  "handleUndo s =
     (if canUndo s
      then s\<lparr>historyIndex := historyIndex s - 1,
             editHotspot := None,
             displayHotspot := None,
             layers := [],
             selectedLayerId := None\<rparr>
      else s)"

definition handleRedo :: "'r app_state \<Rightarrow> 'r app_state" where
  "handleRedo s =
     (if canRedo s
      then s\<lparr>historyIndex := historyIndex s + 1,
             editHotspot := None,
             displayHotspot := None,
             layers := [],
             selectedLayerId := None\<rparr>
      else s)"

definition handleReset :: "'r app_state \<Rightarrow> 'r app_state" where
  "handleReset s =
     (if length (history s) > 0
      then s\<lparr>historyIndex := 0,
             error := None,
             editHotspot := None,
             displayHotspot := None,
             layers := [],
             selectedLayerId := None\<rparr>
      else s)"

definition handleResetCrop :: "'r app_state \<Rightarrow> 'r app_state" where
  "handleResetCrop s = s\<lparr>crop := None, completedCrop := None\<rparr>"

text \<open>A run of commits, oldest first, and a run of \<open>k\<close> presses of Undo.\<close>

fun commits :: "'r list \<Rightarrow> 'r app_state \<Rightarrow> 'r app_state" where
  "commits [] s = s"
| "commits (r # rs) s = commits rs (addImageToHistory r s)"

fun undos :: "nat \<Rightarrow> 'r app_state \<Rightarrow> 'r app_state" where
  "undos 0 s = s"
| "undos (Suc k) s = undos k (handleUndo s)"

text \<open>A concrete session state for the closed examples below; rasters are numbers.\<close>

definition session0 :: "nat app_state" where
  "session0 =
     \<lparr>mode = edit, history = [0, 1, 2], historyIndex = 2, prompt = [],
      isLoading = False, error = None, editHotspot = None, displayHotspot = None,
      activeTab = retouch, crop = None, completedCrop = None, aspect = None,
      layers = [], selectedLayerId = None\<rparr>"

subsection \<open>Numbers in template strings\<close>

text \<open>
  \<open>`${n}`\<close> for an integer \<open>n\<close>: its decimal digits, with a minus sign below zero
  (the form JavaScript prints for magnitudes below \<open>10^21\<close>).
\<close>

definition digit :: "nat \<Rightarrow> char" where
  "digit d = ''0123456789'' ! d"

fun decimal :: "nat \<Rightarrow> string" where
  "decimal n = (if n < 10 then [digit n] else decimal (n div 10) @ [digit (n mod 10)])"

declare decimal.simps [simp del]

definition showInt :: "int \<Rightarrow> string" where
  "showInt i = (if i < 0 then CHR ''-'' # decimal (nat (- i)) else decimal (nat i))"

text \<open>
  \<open>String.prototype.trim\<close> removes white space and line terminators at both ends; of
  the code units below 256 these are 9 to 13, 32 and 160.
\<close>

definition isWhiteSpace :: "char \<Rightarrow> bool" where
  "isWhiteSpace c = ((of_char c :: nat) \<in> {9, 10, 11, 12, 13, 32, 160})"

definition trim :: "string \<Rightarrow> string" where
  "trim str = rev (dropWhile isWhiteSpace (rev (dropWhile isWhiteSpace str)))"

subsection \<open>Collaborators and platform\<close>

text \<open>
  What a \<open>catch (err)\<close> receives: an \<open>Error\<close> with its message, or any other value.
\<close>

datatype thrown = Error_obj string | Non_error

definition errorMessage :: "thrown \<Rightarrow> string" where
  "errorMessage err =
     (case err of Error_obj m \<Rightarrow> m | Non_error \<Rightarrow> ''An unknown error occurred.'')"

text \<open>The \<open>img\<close> element behind \<open>imgRef\<close>: the raster it shows and its sizes.\<close>

record 'r ImageElement =
  img_src :: 'r
  naturalWidth :: nat
  naturalHeight :: nat
  img_width :: nat
  img_height :: nat

text \<open>
  A 2D canvas, as far as the handlers drive it: its size in pixels, the state of its
  context and the drawing calls made so far, oldest first. A \<open>fillText\<close> call is
  recorded with the context state it was made under.
\<close>

record ctx_state =
  transform :: "rat \<times> rat \<times> rat \<times> rat \<times> rat \<times> rat"
  imageSmoothingQuality :: string
  globalAlpha :: rat
  ctx_font :: string
  fillStyle :: string
  textBaseline :: string

datatype 'r draw_op =
    DrawImage 'r rat rat
  | DrawImageRegion 'r "(rat \<times> rat \<times> rat \<times> rat) option" "rat \<times> rat \<times> rat \<times> rat"
  | FillText string rat rat ctx_state

record 'r Canvas =
  canvas_width :: nat
  canvas_height :: nat
  ctx :: ctx_state
  painted :: "'r draw_op list"

text \<open>
  \<open>canvas.width\<close> and \<open>canvas.height\<close> are attributes of type \<open>unsigned long\<close>. A number
  assigned to one is cut to its integer part and taken modulo \<open>2^32\<close>; a result above
  \<open>2^31 - 1\<close> is replaced by the attribute's default, 300 for the width and 150 for the
  height.
\<close>

definition toUnsignedLong :: "rat \<Rightarrow> nat" where
  "toUnsignedLong v = nat ((if v < 0 then - \<lfloor>- v\<rfloor> else \<lfloor>v\<rfloor>) mod 4294967296)"

definition canvasSize :: "nat \<Rightarrow> rat \<Rightarrow> nat" where
  "canvasSize fallback v =
     (let u = toUnsignedLong v in if u \<le> 2147483647 then u else fallback)"

definition initial_ctx :: ctx_state where
  "initial_ctx =
     \<lparr>transform = (1, 0, 0, 1, 0, 0), imageSmoothingQuality = ''low'', globalAlpha = 1,
      ctx_font = ''10px sans-serif'', fillStyle = ''#000000'', textBaseline = ''alphabetic''\<rparr>"

text \<open>
  Everything a handler obtains from outside the component: the services of
  \<open>geminiService\<close> (each resolves to a data URL or throws), \<open>atob\<close> (the decoded
  binary string, or an exception on malformed base64), the constructor
  \<open>new File([bytes], name, {type})\<close>, \<open>Date.now()\<close>, the image element, whether
  \<open>getContext('2d')\<close> returns a context, \<open>window.devicePixelRatio\<close>, the base64 text
  of the PNG that the browser encodes a canvas into, and the natural size of the image
  that \<open>new Image()\<close> loads from the current URL (\<open>None\<close> when loading fails).
\<close>

record 'r env =
  generateEditedImage :: "'r \<Rightarrow> string \<Rightarrow> int \<times> int \<Rightarrow> thrown + string"
  generateFilteredImage :: "'r \<Rightarrow> string \<Rightarrow> thrown + string"
  generateAdjustedImage :: "'r \<Rightarrow> string \<Rightarrow> thrown + string"
  generateAutoEnhancedImage :: "'r \<Rightarrow> thrown + string"
  generateUpscaledImage :: "'r \<Rightarrow> thrown + string"
  atob :: "string \<Rightarrow> thrown + string"
  newFile :: "nat list \<Rightarrow> string \<Rightarrow> string \<Rightarrow> 'r"
  now :: nat
  imgRef :: "'r ImageElement option"
  getContext :: bool
  devicePixelRatio :: rat
  pngBase64 :: "'r Canvas \<Rightarrow> string"
  loadedImage :: "(nat \<times> nat) option"

text \<open>
  \<open>canvas.toDataURL('image/png')\<close>: a canvas without pixels, one whose width or height
  is zero, gives the string \<open>data:,\<close>; any other gives a PNG data URL.
\<close>

definition toDataURL :: "'r env \<Rightarrow> 'r Canvas \<Rightarrow> string" where
  "toDataURL e cv =
     (if canvas_width cv = 0 \<or> canvas_height cv = 0 then ''data:,''
      else ''data:image/png;base64,'' @ pngBase64 e cv)"

subsection \<open>From a data URL to a file\<close>

text \<open>\<open>dataurl.split(',')\<close>: the pieces between the commas, at least one.\<close>

fun split_comma :: "string \<Rightarrow> string list" where
  "split_comma [] = [[]]"
| "split_comma (c # cs) =
     (if c = CHR '','' then [] # split_comma cs
      else (case split_comma cs of [] \<Rightarrow> [[c]] | piece # pieces \<Rightarrow> (c # piece) # pieces))"

text \<open>
  \<open>arr[0].match(/:(.*?);/)\<close>, reduced to its first group: the match starts at the first
  colon from which a semicolon is reached without crossing a line terminator, and the
  group is the text up to the nearest such semicolon.
\<close>

definition isLineTerminator :: "char \<Rightarrow> bool" where
  "isLineTerminator c = ((of_char c :: nat) \<in> {10, 13})"

fun lazy_until_semicolon :: "string \<Rightarrow> string option" where
  "lazy_until_semicolon [] = None"
| "lazy_until_semicolon (c # cs) =
     (if c = CHR '';'' then Some []
      else if isLineTerminator c then None
      else (case lazy_until_semicolon cs of None \<Rightarrow> None | Some g \<Rightarrow> Some (c # g)))"

fun mimeMatch :: "string \<Rightarrow> string option" where
  "mimeMatch [] = None"
| "mimeMatch (c # cs) =
     (if c = CHR '':'' then
        (case lazy_until_semicolon cs of None \<Rightarrow> mimeMatch cs | Some g \<Rightarrow> Some g)
      else mimeMatch cs)"

text \<open>
  \<open>while (n--) { u8arr[n] = bstr.charCodeAt(n); }\<close> on an array of \<open>n\<close> zeros: the
  test reads \<open>n\<close> and decrements it, the body writes at the decremented index.
\<close>

fun fill_bytes :: "nat \<Rightarrow> string \<Rightarrow> nat list \<Rightarrow> nat list" where
  "fill_bytes 0 bstr u8arr = u8arr"
| "fill_bytes (Suc n) bstr u8arr = fill_bytes n bstr (u8arr[n := of_char (bstr ! n)])"

definition dataURLtoFile :: "'r env \<Rightarrow> string \<Rightarrow> string \<Rightarrow> thrown + 'r" where
  "dataURLtoFile e dataurl filename =
     (let arr = split_comma dataurl
      in if length arr < 2 then Inl (Error_obj ''Invalid data URL'')
         else
           (case mimeMatch (arr ! 0) of
              None \<Rightarrow> Inl (Error_obj ''Could not parse MIME type from data URL'')
            | Some mime \<Rightarrow>
                if mime = [] then Inl (Error_obj ''Could not parse MIME type from data URL'')
                else
                  (case atob e (arr ! 1) of
                     Inl err \<Rightarrow> Inl err
                   | Inr bstr \<Rightarrow>
                       Inr (newFile e
                              (fill_bytes (length bstr) bstr (replicate (length bstr) 0))
                              filename mime))))"

subsection \<open>Content edits through a collaborator\<close>

text \<open>
  Each handler checks its inputs, sets the busy flag, runs the service and
  \<open>dataURLtoFile\<close> inside \<open>try\<close>, commits on success, reports in \<open>catch\<close>, and
  clears the busy flag in \<open>finally\<close>. The handler is taken as one step: the state it
  starts from is the state its closure captured.
\<close>

definition handleGenerate :: "'r env \<Rightarrow> 'r app_state \<Rightarrow> 'r app_state" where
  "handleGenerate e s =
     (case currentImage s of
        None \<Rightarrow> s\<lparr>error := Some ''No image loaded to edit.''\<rparr>
      | Some img \<Rightarrow>
          if trim (prompt s) = [] then
            s\<lparr>error := Some ''Please enter a description for your edit.''\<rparr>
          else
            (case editHotspot s of
               None \<Rightarrow> s\<lparr>error := Some ''Please click on the image to select an area to edit.''\<rparr>
             | Some hotspot \<Rightarrow>
                 let s1 = s\<lparr>isLoading := True, error := None\<rparr>;
                     s2 = (case generateEditedImage e img (prompt s) hotspot of
                             Inl err \<Rightarrow>
                               s1\<lparr>error := Some (''Failed to generate the image. '' @ errorMessage err)\<rparr>
                           | Inr editedImageUrl \<Rightarrow>
                               (case dataURLtoFile e editedImageUrl (''edited-'' @ decimal (now e) @ ''.png'') of
                                  Inl err \<Rightarrow>
                                    s1\<lparr>error := Some (''Failed to generate the image. '' @ errorMessage err)\<rparr>
                                | Inr newImageFile \<Rightarrow>
                                    (addImageToHistory newImageFile s1)
                                      \<lparr>editHotspot := None, displayHotspot := None\<rparr>))
                 in s2\<lparr>isLoading := False\<rparr>))"

definition handleApplyFilter :: "'r env \<Rightarrow> string \<Rightarrow> 'r app_state \<Rightarrow> 'r app_state" where
  "handleApplyFilter e filterPrompt s =
     (case currentImage s of
        None \<Rightarrow> s\<lparr>error := Some ''No image loaded to apply a filter to.''\<rparr>
      | Some img \<Rightarrow>
          let s1 = s\<lparr>isLoading := True, error := None\<rparr>;
              s2 = (case generateFilteredImage e img filterPrompt of
                      Inl err \<Rightarrow>
                        s1\<lparr>error := Some (''Failed to apply the filter. '' @ errorMessage err)\<rparr>
                    | Inr filteredImageUrl \<Rightarrow>
                        (case dataURLtoFile e filteredImageUrl (''filtered-'' @ decimal (now e) @ ''.png'') of
                           Inl err \<Rightarrow>
                             s1\<lparr>error := Some (''Failed to apply the filter. '' @ errorMessage err)\<rparr>
                         | Inr newImageFile \<Rightarrow> addImageToHistory newImageFile s1))
          in s2\<lparr>isLoading := False\<rparr>)"

definition handleApplyAdjustment :: "'r env \<Rightarrow> string \<Rightarrow> 'r app_state \<Rightarrow> 'r app_state" where
  "handleApplyAdjustment e adjustmentPrompt s =
     (case currentImage s of
        None \<Rightarrow> s\<lparr>error := Some ''No image loaded to apply an adjustment to.''\<rparr>
      | Some img \<Rightarrow>
          let s1 = s\<lparr>isLoading := True, error := None\<rparr>;
              s2 = (case generateAdjustedImage e img adjustmentPrompt of
                      Inl err \<Rightarrow>
                        s1\<lparr>error := Some (''Failed to apply the adjustment. '' @ errorMessage err)\<rparr>
                    | Inr adjustedImageUrl \<Rightarrow>
                        (case dataURLtoFile e adjustedImageUrl (''adjusted-'' @ decimal (now e) @ ''.png'') of
                           Inl err \<Rightarrow>
                             s1\<lparr>error := Some (''Failed to apply the adjustment. '' @ errorMessage err)\<rparr>
                         | Inr newImageFile \<Rightarrow> addImageToHistory newImageFile s1))
          in s2\<lparr>isLoading := False\<rparr>)"

definition handleAutoEnhance :: "'r env \<Rightarrow> 'r app_state \<Rightarrow> 'r app_state" where
  "handleAutoEnhance e s =
     (case currentImage s of
        None \<Rightarrow> s\<lparr>error := Some ''No image loaded to auto-enhance.''\<rparr>
      | Some img \<Rightarrow>
          let s1 = s\<lparr>isLoading := True, error := None\<rparr>;
              s2 = (case generateAutoEnhancedImage e img of
                      Inl err \<Rightarrow>
                        s1\<lparr>error := Some (''Failed to auto-enhance the image. '' @ errorMessage err)\<rparr>
                    | Inr enhancedImageUrl \<Rightarrow>
                        (case dataURLtoFile e enhancedImageUrl (''enhanced-'' @ decimal (now e) @ ''.png'') of
                           Inl err \<Rightarrow>
                             s1\<lparr>error := Some (''Failed to auto-enhance the image. '' @ errorMessage err)\<rparr>
                         | Inr newImageFile \<Rightarrow> addImageToHistory newImageFile s1))
          in s2\<lparr>isLoading := False\<rparr>)"

definition handleUpscale :: "'r env \<Rightarrow> 'r app_state \<Rightarrow> 'r app_state" where
  "handleUpscale e s =
     (case currentImage s of
        None \<Rightarrow> s\<lparr>error := Some ''No image loaded to upscale.''\<rparr>
      | Some img \<Rightarrow>
          let s1 = s\<lparr>isLoading := True, error := None\<rparr>;
              s2 = (case generateUpscaledImage e img of
                      Inl err \<Rightarrow>
                        s1\<lparr>error := Some (''Failed to upscale the image. '' @ errorMessage err)\<rparr>
                    | Inr upscaledImageUrl \<Rightarrow>
                        (case dataURLtoFile e upscaledImageUrl (''upscaled-'' @ decimal (now e) @ ''.png'') of
                           Inl err \<Rightarrow>
                             s1\<lparr>error := Some (''Failed to upscale the image. '' @ errorMessage err)\<rparr>
                         | Inr newImageFile \<Rightarrow> addImageToHistory newImageFile s1))
          in s2\<lparr>isLoading := False\<rparr>)"

subsection \<open>Crop\<close>

text \<open>
  \<open>image.naturalWidth / image.width\<close>: with a displayed size of zero the quotient is
  infinite or not a number, which is \<open>None\<close> here.
\<close>

definition js_div :: "nat \<Rightarrow> nat \<Rightarrow> rat option" where
  "js_div a b = (if b = 0 then None else Some (of_nat a / of_nat b))"

text \<open>
  The canvas that \<open>handleApplyCrop\<close> builds once it holds a context: the size it
  assigns last, the transform, and the one \<open>drawImage\<close> call with its source rectangle
  (\<open>None\<close> when a scale factor is not finite) and its destination rectangle.
  \<open>window.devicePixelRatio || 1\<close> is 1 when the ratio is zero. The canvas keeps the
  sizes assigned to it as \<open>canvasSize\<close> converts them.
\<close>

definition cropCanvas :: "CropRect \<Rightarrow> 'r ImageElement \<Rightarrow> rat \<Rightarrow> 'r Canvas" where
  "cropCanvas c image_el dpr =
     (let scaleX = js_div (naturalWidth image_el) (img_width image_el);
          scaleY = js_div (naturalHeight image_el) (img_height image_el);
          pixelRatio = (if dpr = 0 then 1 else dpr)
      in \<lparr>canvas_width = canvasSize 300 (crop_width c * pixelRatio),
          canvas_height = canvasSize 150 (crop_height c * pixelRatio),
          ctx = initial_ctx\<lparr>transform := (pixelRatio, 0, 0, pixelRatio, 0, 0),
                            imageSmoothingQuality := ''high''\<rparr>,
          painted =
            [DrawImageRegion (img_src image_el)
               (case (scaleX, scaleY) of
                  (Some sx, Some sy) \<Rightarrow>
                    Some (crop_x c * sx, crop_y c * sy, crop_width c * sx, crop_height c * sy)
                | _ \<Rightarrow> None)
               (0, 0, crop_width c, crop_height c)]\<rparr>)"

text \<open>
  \<open>handleApplyCrop\<close> has no \<open>try\<close>: an exception of \<open>dataURLtoFile\<close> leaves the
  handler (\<open>Inl\<close>) before any setter has run.
\<close>

definition handleApplyCrop :: "'r env \<Rightarrow> 'r app_state \<Rightarrow> thrown + 'r app_state" where
  "handleApplyCrop e s =
     (case completedCrop s of
        None \<Rightarrow> Inr (s\<lparr>error := Some ''Please select an area to crop.''\<rparr>)
      | Some c \<Rightarrow>
          (case imgRef e of
             None \<Rightarrow> Inr (s\<lparr>error := Some ''Please select an area to crop.''\<rparr>)
           | Some image_el \<Rightarrow>
               if \<not> getContext e then Inr (s\<lparr>error := Some ''Could not process the crop.''\<rparr>)
               else
                 (case dataURLtoFile e (toDataURL e (cropCanvas c image_el (devicePixelRatio e)))
                         (''cropped-'' @ decimal (now e) @ ''.png'') of
                    Inl err \<Rightarrow> Inl err
                  | Inr newImageFile \<Rightarrow> Inr (addImageToHistory newImageFile s))))"

text \<open>
  The props of \<open>CropPanel\<close>: \<open>!!completedCrop?.width && completedCrop.width > 0\<close>, and
  the same on \<open>crop\<close>. The panel disables Apply Crop when \<open>isLoading\<close> or not
  \<open>isApplyCropEnabled\<close>.
\<close>

definition isApplyCropEnabled :: "'r app_state \<Rightarrow> bool" where
  "isApplyCropEnabled s =
     (case completedCrop s of None \<Rightarrow> False | Some c \<Rightarrow> crop_width c \<noteq> 0 \<and> crop_width c > 0)"

definition isCropActive :: "'r app_state \<Rightarrow> bool" where
  "isCropActive s =
     (case crop s of None \<Rightarrow> False | Some c \<Rightarrow> crop_width c \<noteq> 0 \<and> crop_width c > 0)"

subsection \<open>Layers\<close>

definition newTextLayer :: "nat \<Rightarrow> TextLayer" where
  "newTextLayer t =
     \<lparr>id_l = ''layer_'' @ decimal t,
      type_l = text_kind,
      content = ''Your Text Here'',
      font = ''Arial'',
      size_l = 50,
      color = ''#FFFFFF'',
      position = (50, 50),
      opacity = 1,
      visible = True\<rparr>"

definition handleAddTextLayer :: "nat \<Rightarrow> 'r app_state \<Rightarrow> 'r app_state" where
  "handleAddTextLayer t s =
     s\<lparr>layers := layers s @ [newTextLayer t],
       selectedLayerId := Some (id_l (newTextLayer t)),
       activeTab := text_tab\<rparr>"

text \<open>\<open>Partial<TextLayer>\<close>: the fields present override, \<open>{ ...l, ...updates }\<close>.\<close>

record LayerUpdates =
  u_id :: "string option"
  u_type :: "layer_type option"
  u_content :: "string option"
  u_font :: "string option"
  u_size :: "int option"
  u_color :: "string option"
  u_position :: "(rat \<times> rat) option"
  u_opacity :: "rat option"
  u_visible :: "bool option"

definition no_updates :: LayerUpdates where
  "no_updates =
     \<lparr>u_id = None, u_type = None, u_content = None, u_font = None, u_size = None,
      u_color = None, u_position = None, u_opacity = None, u_visible = None\<rparr>"

definition override :: "'a \<Rightarrow> 'a option \<Rightarrow> 'a" where
  "override old new = (case new of None \<Rightarrow> old | Some v \<Rightarrow> v)"

definition spread :: "TextLayer \<Rightarrow> LayerUpdates \<Rightarrow> TextLayer" where
  "spread l updates =
     \<lparr>id_l = override (id_l l) (u_id updates),
      type_l = override (type_l l) (u_type updates),
      content = override (content l) (u_content updates),
      font = override (font l) (u_font updates),
      size_l = override (size_l l) (u_size updates),
      color = override (color l) (u_color updates),
      position = override (position l) (u_position updates),
      opacity = override (opacity l) (u_opacity updates),
      visible = override (visible l) (u_visible updates)\<rparr>"

definition handleUpdateLayer :: "string \<Rightarrow> LayerUpdates \<Rightarrow> 'r app_state \<Rightarrow> 'r app_state" where
  "handleUpdateLayer i updates s =
     s\<lparr>layers := map (\<lambda>l. if id_l l = i then spread l updates else l) (layers s)\<rparr>"

definition handleRemoveLayer :: "string \<Rightarrow> 'r app_state \<Rightarrow> 'r app_state" where
  "handleRemoveLayer i s =
     (let s1 = s\<lparr>layers := filter (\<lambda>l. id_l l \<noteq> i) (layers s)\<rparr>
      in if selectedLayerId s = Some i then s1\<lparr>selectedLayerId := None\<rparr> else s1)"

text \<open>
  The overlay elements that \<open>renderContent\<close> puts over the image, in document order:
  one per visible text layer, in the order of \<open>layers\<close>; a later element lies over an
  earlier one.
\<close>

definition renderedLayers :: "TextLayer list \<Rightarrow> TextLayer list" where
  "renderedLayers ls = filter (\<lambda>layer. type_l layer = text_kind \<and> visible layer) ls"

subsection \<open>Flattening: download and merge\<close>

text \<open>
  Both handlers size a canvas to the loaded image, draw the image at the origin and run
  \<open>[...layers].reverse().forEach\<close> with the same body; \<open>forEach\<close> is a left fold.
\<close>

definition downloadCanvas :: "'r \<Rightarrow> nat \<times> nat \<Rightarrow> TextLayer list \<Rightarrow> 'r Canvas" where
  "downloadCanvas imageToDownload natural ls =
     foldl
       (\<lambda>cv layer.
          if visible layer \<and> type_l layer = text_kind then
            (let c1 = (ctx cv)\<lparr>globalAlpha := opacity layer,
                               ctx_font := showInt (size_l layer) @ ''px '' @ font layer,
                               fillStyle := color layer,
                               textBaseline := ''top''\<rparr>
             in cv\<lparr>ctx := c1,
                   painted := painted cv @
                     [FillText (content layer) (fst (position layer)) (snd (position layer)) c1]\<rparr>)
          else cv)
       \<lparr>canvas_width = canvasSize 300 (of_nat (fst natural)),
        canvas_height = canvasSize 150 (of_nat (snd natural)),
        ctx = initial_ctx, painted = [DrawImage imageToDownload 0 0]\<rparr>
       (rev ls)"

definition mergeCanvas :: "'r \<Rightarrow> nat \<times> nat \<Rightarrow> TextLayer list \<Rightarrow> 'r Canvas" where
  "mergeCanvas imageToMerge natural ls =
     foldl
       (\<lambda>cv layer.
          if visible layer \<and> type_l layer = text_kind then
            (let c1 = (ctx cv)\<lparr>globalAlpha := opacity layer,
                               ctx_font := showInt (size_l layer) @ ''px '' @ font layer,
                               fillStyle := color layer,
                               textBaseline := ''top''\<rparr>
             in cv\<lparr>ctx := c1,
                   painted := painted cv @
                     [FillText (content layer) (fst (position layer)) (snd (position layer)) c1]\<rparr>)
          else cv)
       \<lparr>canvas_width = canvasSize 300 (of_nat (fst natural)),
        canvas_height = canvasSize 150 (of_nat (snd natural)),
        ctx = initial_ctx, painted = [DrawImage imageToMerge 0 0]\<rparr>
       (rev ls)"

text \<open>
  \<open>handleDownload\<close> changes no state; its result is the data URL it offers for
  download, when the image loads and a context is available.
\<close>

definition handleDownload :: "'r env \<Rightarrow> 'r app_state \<Rightarrow> string option" where
  "handleDownload e s =
     (case currentImage s of
        None \<Rightarrow> None
      | Some img \<Rightarrow>
          (case loadedImage e of
             None \<Rightarrow> None
           | Some natural \<Rightarrow>
               if \<not> getContext e then None
               else Some (toDataURL e (downloadCanvas img natural (layers s)))))"

text \<open>
  In \<open>handleMergeLayers\<close> the work runs in the \<open>onload\<close> callback of the image. An
  exception of \<open>dataURLtoFile\<close> there is caught by nothing: the busy flag, set before,
  stays set.
\<close>

definition handleMergeLayers :: "'r env \<Rightarrow> 'r app_state \<Rightarrow> 'r app_state" where
  "handleMergeLayers e s =
     (case currentImage s of
        None \<Rightarrow> s
      | Some img \<Rightarrow>
          let s1 = s\<lparr>isLoading := True\<rparr>
          in (case loadedImage e of
                None \<Rightarrow> s1\<lparr>isLoading := False, error := Some ''Failed to load image for merging.''\<rparr>
              | Some natural \<Rightarrow>
                  if \<not> getContext e then
                    s1\<lparr>isLoading := False,
                       error := Some ''Failed to create canvas context for merging.''\<rparr>
                  else
                    (case dataURLtoFile e (toDataURL e (mergeCanvas img natural (layers s)))
                            (''merged-'' @ decimal (now e) @ ''.png'') of
                       Inl err \<Rightarrow> s1
                     | Inr newImageFile \<Rightarrow> (addImageToHistory newImageFile s1)\<lparr>isLoading := False\<rparr>)))"

subsection \<open>Concrete sessions for the closed examples\<close>

definition session_first :: "nat app_state" where
  "session_first = session0\<lparr>historyIndex := 0\<rparr>"

definition session_one :: "nat app_state" where
  "session_one = session0\<lparr>history := [0], historyIndex := 0\<rparr>"

text \<open>An image of 1000 by 500 pixels shown at 500 by 250.\<close>

definition element0 :: "nat ImageElement" where
  "element0 =
     \<lparr>img_src = 2, naturalWidth = 1000, naturalHeight = 500, img_width = 500, img_height = 250\<rparr>"

definition env0 :: "nat env" where
  "env0 =
     \<lparr>generateEditedImage = (\<lambda>img p h. Inr ''data:image/png;base64,AA==''),
      generateFilteredImage = (\<lambda>img p. Inr ''data:image/png;base64,AA==''),
      generateAdjustedImage = (\<lambda>img p. Inr ''data:image/png;base64,AA==''),
      generateAutoEnhancedImage = (\<lambda>img. Inr ''data:image/png;base64,AA==''),
      generateUpscaledImage = (\<lambda>img. Inr ''data:image/png;base64,AA==''),
      atob = (\<lambda>b64. Inr [CHR 0x00]),
      newFile = (\<lambda>bytes name mime. 9),
      now = 1700000000000,
      imgRef = Some element0,
      getContext = True,
      devicePixelRatio = 1,
      pngBase64 = (\<lambda>cv. ''AA==''),
      loadedImage = Some (1000, 500)\<rparr>"

definition env_failing :: "nat env" where
  "env_failing =
     env0\<lparr>generateEditedImage := (\<lambda>img p h. Inl (Error_obj ''quota'')),
          generateFilteredImage := (\<lambda>img p. Inl (Error_obj ''quota'')),
          generateAdjustedImage := (\<lambda>img p. Inl (Error_obj ''quota'')),
          generateAutoEnhancedImage := (\<lambda>img. Inl Non_error),
          generateUpscaledImage := (\<lambda>img. Inl Non_error)\<rparr>"

definition session_hotspot :: "nat app_state" where
  "session_hotspot =
     session0\<lparr>editHotspot := Some (200, 100), displayHotspot := Some (100, 50),
              prompt := ''remove the lamp''\<rparr>"

definition rect0 :: CropRect where
  "rect0 = \<lparr>crop_x = 100, crop_y = 50, crop_width = 100, crop_height = 50\<rparr>"

definition session_crop :: "nat app_state" where
  "session_crop = session0\<lparr>crop := Some rect0, completedCrop := Some rect0, aspect := Some 2\<rparr>"

text \<open>
  A crop region of no height (a drag along a horizontal line), and one with fractions.
\<close>

definition rect_flat :: CropRect where
  "rect_flat = \<lparr>crop_x = 0, crop_y = 0, crop_width = 10, crop_height = 0\<rparr>"


text \<open>The text that a drawing call writes, if it writes any.\<close>

fun drawn_text :: "'r draw_op \<Rightarrow> string option" where
  "drawn_text (FillText txt x y c) = Some txt"
| "drawn_text (DrawImage img x y) = None"
| "drawn_text (DrawImageRegion img src dst) = None"

definition layerA :: TextLayer where
  "layerA = (newTextLayer 1)\<lparr>content := ''Title'', position := (10, 10)\<rparr>"

definition layerB :: TextLayer where
  "layerB = (newTextLayer 2)\<lparr>content := ''Hidden'', opacity := 1 / 2, visible := False\<rparr>"

definition layerC :: TextLayer where
  "layerC = (newTextLayer 3)\<lparr>content := ''Footer'', position := (10, 400)\<rparr>"

definition hide :: LayerUpdates where
  "hide = no_updates\<lparr>u_visible := Some False\<rparr>"

definition session_layers :: "nat app_state" where
  "session_layers =
     session0\<lparr>layers := [layerA, layerB, layerC], selectedLayerId := Some (id_l layerB)\<rparr>"

section \<open>Decoding a data URL\<close>

lemma fill_bytes_prefix:
  "n \<le> length bstr \<Longrightarrow> length u8arr = length bstr \<Longrightarrow>
   fill_bytes n bstr u8arr = map of_char (take n bstr) @ drop n u8arr"
proof (induction n arbitrary: u8arr)
  case 0
  then show ?case by simp
next
  case (Suc n)
  then have n: "n < length bstr" "n < length u8arr" by simp_all
  have "fill_bytes (Suc n) bstr u8arr = fill_bytes n bstr (u8arr[n := of_char (bstr ! n)])"
    by simp
  also have "\<dots> = map of_char (take n bstr) @ drop n (u8arr[n := of_char (bstr ! n)])"
    using Suc.IH [of "u8arr[n := of_char (bstr ! n)]"] Suc.prems by simp
  also have "drop n (u8arr[n := of_char (bstr ! n)]) = of_char (bstr ! n) # drop (Suc n) u8arr"
    using n by (simp add: drop_update_swap [symmetric] Cons_nth_drop_Suc [symmetric] upd_conv_take_nth_drop)
  finally show ?case using n by (simp add: take_Suc_conv_app_nth)
qed

lemma fill_bytes_char_codes:
  "fill_bytes (length bstr) bstr (replicate (length bstr) 0) = map of_char bstr"
  using fill_bytes_prefix [of "length bstr" bstr "replicate (length bstr) 0"] by simp

lemma dataURLtoFile_png:
  "dataURLtoFile e ''data:image/png;base64,AA=='' name =
     (case atob e ''AA=='' of
        Inl err \<Rightarrow> Inl err
      | Inr bstr \<Rightarrow>
          Inr (newFile e (fill_bytes (length bstr) bstr (replicate (length bstr) 0)) name
                 ''image/png''))"
  by (simp add: dataURLtoFile_def isLineTerminator_def)

lemma dataURLtoFile_blank:
  "dataURLtoFile e ''data:,'' name = Inl (Error_obj ''Could not parse MIME type from data URL'')"
  by (simp add: dataURLtoFile_def isLineTerminator_def)

section \<open>History: commit, undo, redo\<close>

lemma slice0_take: "- 1 \<le> i \<Longrightarrow> slice0 xs (i + 1) = take (nat (i + 1)) xs"
  by (simp add: slice0_def Let_def min_def)

lemma history_addImageToHistory:
  "history (addImageToHistory r s) = slice0 (history s) (historyIndex s + 1) @ [r]"
  by (simp add: addImageToHistory_def Let_def)

lemma historyIndex_addImageToHistory:
  "historyIndex (addImageToHistory r s) = int (length (history (addImageToHistory r s))) - 1"
  by (simp add: addImageToHistory_def Let_def)

lemma handleUndo_history: "history (handleUndo s) = history s"
  by (simp add: handleUndo_def)

lemma handleRedo_history: "history (handleRedo s) = history s"
  by (simp add: handleRedo_def)

lemma handleUndo_index:
  "historyIndex (handleUndo s) = (if historyIndex s > 0 then historyIndex s - 1 else historyIndex s)"
  by (simp add: handleUndo_def canUndo_def)

lemma commit_at_end:
  assumes "historyIndex s = int (length (history s)) - 1"
  shows "history (addImageToHistory r s) = history s @ [r]"
    and "historyIndex (addImageToHistory r s) = int (length (history s))"
  using assms by (simp_all add: addImageToHistory_def Let_def slice0_def)

lemma commits_at_end:
  "historyIndex s = int (length (history s)) - 1 \<Longrightarrow>
   history (commits rs s) = history s @ rs \<and>
   historyIndex (commits rs s) = int (length (history s) + length rs) - 1"
proof (induction rs arbitrary: s)
  case Nil
  then show ?case by simp
next
  case (Cons r rs)
  have e: "historyIndex (addImageToHistory r s) = int (length (history (addImageToHistory r s))) - 1"
    by (rule historyIndex_addImageToHistory)
  from Cons.IH [OF e] commit_at_end(1) [OF Cons.prems, of r]
  show ?case by simp
qed

lemma undos_history: "history (undos k s) = history s"
  by (induction k arbitrary: s) (simp_all add: handleUndo_history)

lemma undos_index:
  "int k \<le> historyIndex s \<Longrightarrow> historyIndex (undos k s) = historyIndex s - int k"
proof (induction k arbitrary: s)
  case 0
  then show ?case by simp
next
  case (Suc k)
  then have pos: "historyIndex s > 0" by simp
  then have i: "historyIndex (handleUndo s) = historyIndex s - 1"
    by (simp add: handleUndo_index)
  with Suc.prems have "int k \<le> historyIndex (handleUndo s)" by simp
  from Suc.IH [OF this] i show ?case by simp
qed

text \<open>
  C1. From the history \<open>[R0, R1, R2]\<close> at cursor 2, one undo moves the cursor to 1, and a
  commit of \<open>R'\<close> then gives the history \<open>[R0, R1, R']\<close> at cursor 2, where redo is not
  available until the next undo. In general, at any cursor from \<open>-1\<close> on, a commit keeps
  the entries at the positions up to the cursor, appends the new raster and puts the
  cursor on the new last position.
\<close>

theorem commit_truncates_and_appends:
  fixes s :: "'r app_state"
  shows "(history s = [R0, R1, R2] \<and> historyIndex s = 2 \<longrightarrow>
            historyIndex (handleUndo s) = 1 \<and>
            history (addImageToHistory R' (handleUndo s)) = [R0, R1, R'] \<and>
            historyIndex (addImageToHistory R' (handleUndo s)) = 2 \<and>
            \<not> canRedo (addImageToHistory R' (handleUndo s)) \<and>
            canRedo (handleUndo (addImageToHistory R' (handleUndo s))))
       \<and> (- 1 \<le> historyIndex s \<longrightarrow>
            history (addImageToHistory r s) = take (nat (historyIndex s + 1)) (history s) @ [r] \<and>
            historyIndex (addImageToHistory r s) = int (length (history (addImageToHistory r s))) - 1 \<and>
            \<not> canRedo (addImageToHistory r s))"
proof (intro conjI impI)
  assume h: "history s = [R0, R1, R2] \<and> historyIndex s = 2"
  let ?u = "handleUndo s"
  from h have u: "history ?u = [R0, R1, R2]" "historyIndex ?u = 1"
    by (simp_all add: handleUndo_def canUndo_def)
  then show "historyIndex ?u = 1" by simp
  from u show c: "history (addImageToHistory R' ?u) = [R0, R1, R']"
    by (simp add: addImageToHistory_def Let_def slice0_def)
  from u show i: "historyIndex (addImageToHistory R' ?u) = 2"
    by (simp add: addImageToHistory_def Let_def slice0_def)
  from c i show "\<not> canRedo (addImageToHistory R' ?u)"
    by (simp add: canRedo_def)
  from c i show "canRedo (handleUndo (addImageToHistory R' ?u))"
    by (simp add: canRedo_def handleUndo_def canUndo_def)
next
  assume "- 1 \<le> historyIndex s"
  then show "history (addImageToHistory r s) = take (nat (historyIndex s + 1)) (history s) @ [r]"
    by (simp add: history_addImageToHistory slice0_take)
next
  show "historyIndex (addImageToHistory r s) = int (length (history (addImageToHistory r s))) - 1"
    by (rule historyIndex_addImageToHistory)
next
  show "\<not> canRedo (addImageToHistory r s)"
    by (simp add: canRedo_def historyIndex_addImageToHistory)
qed

theorem commit_truncates_and_appends_witness:
  "history session0 = [0, 1, 2] \<and> historyIndex session0 = 2 \<and>
   history (addImageToHistory 7 (handleUndo session0)) = [0, 1, 7] \<and>
   historyIndex (addImageToHistory 7 (handleUndo session0)) = 2 \<and>
   \<not> canRedo (addImageToHistory 7 (handleUndo session0)) \<and>
   - 1 \<le> historyIndex session0 \<and>
   history (addImageToHistory 7 session0) = [0, 1, 2, 7]"
  using commit_truncates_and_appends [of session0 0 1 2 7 7]
  by (simp add: session0_def)

text \<open>
  C2. Start from the history \<open>[R0]\<close> at cursor 0 and commit the rasters \<open>rs\<close>, which are
  \<open>R1 \<dots> RN\<close>. After \<open>K \<le> N\<close> undos the current image is \<open>R(N - K)\<close>, and redo is
  available exactly when \<open>K > 0\<close>. In every state, undo is available exactly when the
  cursor is above 0, and redo exactly when the cursor is below the last index.
\<close>

theorem undo_after_commits:
  fixes s t :: "'r app_state"
  shows "(history s = [R0] \<and> historyIndex s = 0 \<and> K \<le> length rs \<longrightarrow>
            currentImage (undos K (commits rs s)) = Some ((R0 # rs) ! (length rs - K)) \<and>
            canRedo (undos K (commits rs s)) = (K > 0))
       \<and> canUndo t = (historyIndex t > 0)
       \<and> canRedo t = (historyIndex t < int (length (history t)) - 1)"
proof (intro conjI impI)
  assume a: "history s = [R0] \<and> historyIndex s = 0 \<and> K \<le> length rs"
  then have e: "historyIndex s = int (length (history s)) - 1" by simp
  from commits_at_end [OF e, of rs] a
  have c: "history (commits rs s) = R0 # rs" "historyIndex (commits rs s) = int (length rs)"
    by simp_all
  from a c have k: "int K \<le> historyIndex (commits rs s)" by simp
  have h: "history (undos K (commits rs s)) = R0 # rs"
    by (simp add: undos_history c)
  have i: "historyIndex (undos K (commits rs s)) = int (length rs) - int K"
    using undos_index [OF k] c by simp
  from a have n: "nat (int (length rs) - int K) = length rs - K" by simp
  from a h i n show "currentImage (undos K (commits rs s)) = Some ((R0 # rs) ! (length rs - K))"
    by (simp add: currentImage_def)
  from a h i show "canRedo (undos K (commits rs s)) = (K > 0)"
    by (auto simp add: canRedo_def)
next
  show "canUndo t = (historyIndex t > 0)" by (simp add: canUndo_def)
  show "canRedo t = (historyIndex t < int (length (history t)) - 1)" by (simp add: canRedo_def)
qed

theorem undo_after_commits_witness:
  "history session_one = [0] \<and> historyIndex session_one = 0 \<and> (2::nat) \<le> length [1, 2, 3 :: nat] \<and>
   currentImage (undos 2 (commits [1, 2, 3] session_one)) = Some 1 \<and>
   canRedo (undos 2 (commits [1, 2, 3] session_one)) \<and>
   currentImage (undos 0 (commits [1, 2, 3] session_one)) = Some 3 \<and>
   \<not> canRedo (undos 0 (commits [1, 2, 3] session_one))"
proof -
  have p2: "history session_one = [0] \<and> historyIndex session_one = 0 \<and> (2::nat) \<le> length [1, 2, 3 :: nat]"
    by (simp add: session_one_def session0_def)
  have p0: "history session_one = [0] \<and> historyIndex session_one = 0 \<and> (0::nat) \<le> length [1, 2, 3 :: nat]"
    by (simp add: session_one_def session0_def)
  note k2 = undo_after_commits [of session_one 0 2 "[1, 2, 3]" session_one, THEN conjunct1, rule_format, OF p2]
  note k0 = undo_after_commits [of session_one 0 0 "[1, 2, 3]" session_one, THEN conjunct1, rule_format, OF p0]
  from k2 have a: "currentImage (undos 2 (commits [1, 2, 3] session_one)) = Some 1"
    and b: "canRedo (undos 2 (commits [1, 2, 3] session_one))"
    by (simp_all add: numeral_2_eq_2 numeral_3_eq_3)
  from k0 have c: "currentImage (undos 0 (commits [1, 2, 3] session_one)) = Some 3"
    and d: "\<not> canRedo (undos 0 (commits [1, 2, 3] session_one))"
    by (simp_all add: numeral_3_eq_3)
  from p2 a b c d show ?thesis by blast
qed

text \<open>
  C10. Undo and redo leave the list of committed rasters as it is. When the guard holds,
  the cursor moves by one; when it does not, the whole state is unchanged.
\<close>

theorem undo_redo_keep_history:
  fixes s :: "'r app_state"
  shows "history (handleUndo s) = history s \<and> history (handleRedo s) = history s
       \<and> (canUndo s \<longrightarrow> historyIndex (handleUndo s) = historyIndex s - 1)
       \<and> (canRedo s \<longrightarrow> historyIndex (handleRedo s) = historyIndex s + 1)
       \<and> (\<not> canUndo s \<longrightarrow> handleUndo s = s)
       \<and> (\<not> canRedo s \<longrightarrow> handleRedo s = s)"
  by (simp add: handleUndo_def handleRedo_def)

theorem undo_redo_keep_history_witness:
  "canUndo session0 \<and> \<not> canRedo session0 \<and> canRedo session_first \<and> \<not> canUndo session_first
   \<and> history (handleUndo session0) = [0, 1, 2] \<and> historyIndex (handleUndo session0) = 1
   \<and> handleRedo session0 = session0
   \<and> history (handleRedo session_first) = [0, 1, 2] \<and> historyIndex (handleRedo session_first) = 1
   \<and> handleUndo session_first = session_first"
  using undo_redo_keep_history [of session0] undo_redo_keep_history [of session_first]
  by (simp add: session0_def session_first_def canUndo_def canRedo_def)

section \<open>Transient state across commits, undo and redo\<close>

lemma addImageToHistory_hotspot:
  "editHotspot (addImageToHistory r s) = editHotspot s \<and>
   displayHotspot (addImageToHistory r s) = displayHotspot s"
  by (simp add: addImageToHistory_def Let_def)

lemma commit_paths_keep_hotspot:
  "editHotspot (handleApplyFilter e p s) = editHotspot s"
  "displayHotspot (handleApplyFilter e p s) = displayHotspot s"
  "editHotspot (handleApplyAdjustment e p s) = editHotspot s"
  "displayHotspot (handleApplyAdjustment e p s) = displayHotspot s"
  "editHotspot (handleAutoEnhance e s) = editHotspot s"
  "displayHotspot (handleAutoEnhance e s) = displayHotspot s"
  "editHotspot (handleUpscale e s) = editHotspot s"
  "displayHotspot (handleUpscale e s) = displayHotspot s"
  "editHotspot (handleMergeLayers e s) = editHotspot s"
  "displayHotspot (handleMergeLayers e s) = displayHotspot s"
  by (simp_all add: handleApplyFilter_def handleApplyAdjustment_def handleAutoEnhance_def
        handleUpscale_def handleMergeLayers_def addImageToHistory_hotspot Let_def
        split: option.splits sum.splits)

lemma undo_redo_keep_crop:
  "crop (handleUndo s) = crop s" "completedCrop (handleUndo s) = completedCrop s"
  "crop (handleRedo s) = crop s" "completedCrop (handleRedo s) = completedCrop s"
  by (simp_all add: handleUndo_def handleRedo_def)

text \<open>
  C3. The claim is that the hotspot is cleared after every committed edit. Only
  \<open>handleGenerate\<close> clears it, after its commit; \<open>addImageToHistory\<close>, which the other
  commit paths rely on, resets the crop and the layers and leaves both hotspot cells.
  Evaluated on a session with a hotspot at display \<open>(100, 50)\<close>, natural \<open>(200, 100)\<close>:
  a filter, an adjustment, auto-enhance, upscale, a crop and a merge each commit a raster
  and the hotspot is still there, while the retouch clears it.
\<close>

theorem hotspot_survives_other_commits:
  "history (handleApplyFilter env0 ''sepia'' session_hotspot) = [0, 1, 2, 9] \<and>
   editHotspot (handleApplyFilter env0 ''sepia'' session_hotspot) = Some (200, 100) \<and>
   displayHotspot (handleApplyFilter env0 ''sepia'' session_hotspot) = Some (100, 50) \<and>
   editHotspot (handleApplyAdjustment env0 ''warmer'' session_hotspot) = Some (200, 100) \<and>
   editHotspot (handleAutoEnhance env0 session_hotspot) = Some (200, 100) \<and>
   history (handleUpscale env0 session_hotspot) = [0, 1, 2, 9] \<and>
   editHotspot (handleUpscale env0 session_hotspot) = Some (200, 100) \<and>
   displayHotspot (handleUpscale env0 session_hotspot) = Some (100, 50) \<and>
   editHotspot (handleMergeLayers env0 session_hotspot) = Some (200, 100) \<and>
   handleApplyCrop env0 (session_hotspot\<lparr>completedCrop := Some rect0\<rparr>) =
     Inr (addImageToHistory 9 (session_hotspot\<lparr>completedCrop := Some rect0\<rparr>)) \<and>
   editHotspot (addImageToHistory 9 (session_hotspot\<lparr>completedCrop := Some rect0\<rparr>)) = Some (200, 100) \<and>
   history (handleGenerate env0 session_hotspot) = [0, 1, 2, 9] \<and>
   editHotspot (handleGenerate env0 session_hotspot) = None \<and>
   displayHotspot (handleGenerate env0 session_hotspot) = None"
  by (simp add: handleApplyFilter_def handleApplyAdjustment_def handleAutoEnhance_def
        handleUpscale_def handleMergeLayers_def handleApplyCrop_def handleGenerate_def
        currentImage_def session_hotspot_def session0_def env0_def
        addImageToHistory_def slice0_def Let_def trim_def isWhiteSpace_def dataURLtoFile_png
        toDataURL_def cropCanvas_def mergeCanvas_def canvasSize_def toUnsignedLong_def rect0_def)

text \<open>
  C4. The claim is that a permitted undo or redo clears the crop region. \<open>handleUndo\<close>
  and \<open>handleRedo\<close> clear the hotspot, the layers and the layer selection, and set
  neither \<open>crop\<close> nor \<open>completedCrop\<close> (nor \<open>aspect\<close>). Evaluated on a session with a
  crop selection: the selection is still there after the undo and after the redo.
\<close>

theorem crop_survives_undo_redo:
  "canUndo session_crop \<and>
   crop (handleUndo session_crop) = Some rect0 \<and>
   completedCrop (handleUndo session_crop) = Some rect0 \<and>
   aspect (handleUndo session_crop) = Some 2 \<and>
   canRedo (handleUndo session_crop) \<and>
   crop (handleRedo (handleUndo session_crop)) = Some rect0 \<and>
   completedCrop (handleRedo (handleUndo session_crop)) = Some rect0"
  by (simp add: session_crop_def session0_def handleUndo_def handleRedo_def canUndo_def canRedo_def)

section \<open>Crop\<close>


lemma handleApplyCrop_no_pixels:
  assumes "completedCrop s = Some c" and "imgRef e = Some el" and "getContext e"
    and "canvas_width (cropCanvas c el (devicePixelRatio e)) = 0 \<or>
         canvas_height (cropCanvas c el (devicePixelRatio e)) = 0"
  shows "handleApplyCrop e s = Inl (Error_obj ''Could not parse MIME type from data URL'')"
proof -
  from assms(4) have "toDataURL e (cropCanvas c el (devicePixelRatio e)) = ''data:,''"
    by (simp add: toDataURL_def)
  with assms(1-3) show ?thesis
    by (simp add: handleApplyCrop_def dataURLtoFile_blank)
qed

lemma crop_missing_input:
  fixes s :: "'r app_state"
  shows "(completedCrop s = None \<or> imgRef e = None \<longrightarrow>
            handleApplyCrop e s = Inr (s\<lparr>error := Some ''Please select an area to crop.''\<rparr>))
       \<and> (completedCrop s = None \<longrightarrow> \<not> isApplyCropEnabled s)
       \<and> (\<forall>c. completedCrop s = Some c \<and> crop_width c \<le> 0 \<longrightarrow> \<not> isApplyCropEnabled s)"
  by (auto simp add: handleApplyCrop_def isApplyCropEnabled_def split: option.splits)




text \<open>
  C6. The claim is that a crop attempt on a region of width or height at most 0 fails
  with an invalid-region error and commits nothing. \<open>handleApplyCrop\<close> looks at neither
  the width nor the height, and the gate of the panel looks at the width only. Evaluated
  on a region 10 wide and 0 high: the Apply control is enabled; the handler builds a
  canvas of 10 by 0 pixels, whose encoding is \<open>data:,\<close>; \<open>dataURLtoFile\<close> throws on it,
  and since the handler has no \<open>try\<close> the exception leaves it. Nothing is committed, and
  no error is set either: no setter has run.
\<close>

theorem crop_without_height_escapes:
  "isApplyCropEnabled (session0\<lparr>completedCrop := Some rect_flat\<rparr>) \<and>
   canvas_width (cropCanvas rect_flat element0 (devicePixelRatio env0)) = 10 \<and>
   canvas_height (cropCanvas rect_flat element0 (devicePixelRatio env0)) = 0 \<and>
   toDataURL env0 (cropCanvas rect_flat element0 (devicePixelRatio env0)) = ''data:,'' \<and>
   handleApplyCrop env0 (session0\<lparr>completedCrop := Some rect_flat\<rparr>) =
     Inl (Error_obj ''Could not parse MIME type from data URL'')"
  by (simp add: isApplyCropEnabled_def handleApplyCrop_def toDataURL_def cropCanvas_def
        canvasSize_def toUnsignedLong_def Let_def env0_def rect_flat_def dataURLtoFile_blank)

section \<open>Flattening\<close>

lemma foldl_filter_noop:
  assumes "\<And>acc x. \<not> P x \<Longrightarrow> f acc x = acc"
  shows "foldl f acc (filter P xs) = foldl f acc xs"
  using assms by (induction xs arbitrary: acc) simp_all

lemma downloadCanvas_visible:
  "downloadCanvas b n ls = downloadCanvas b n (filter visible ls)"
  unfolding downloadCanvas_def rev_filter
  by (rule foldl_filter_noop [symmetric]) simp

lemma merge_is_download: "mergeCanvas b n ls = downloadCanvas b n ls"
  by (simp add: mergeCanvas_def downloadCanvas_def)

lemma hidden_like_removed:
  "u_visible upd = Some False \<Longrightarrow>
   filter visible (map (\<lambda>l. if id_l l = i then spread l upd else l) ls) =
   filter visible (filter (\<lambda>l. id_l l \<noteq> i) ls)"
  by (induction ls) (simp_all add: spread_def override_def)

text \<open>
  C7. A layer that is not visible contributes nothing to a flattened image: with such a
  layer \<open>L\<close> anywhere in the list, the canvas is the one obtained from the list without
  \<open>L\<close>, context state and drawing calls alike. This holds for the canvas of the
  download, for the canvas of the merge, for the data URL the download offers and for
  the history after the merge. Setting the visibility of the layers of one identity to
  false gives the canvas that removing them gives. The two call sites build the same
  canvas from the same inputs.
\<close>

theorem flatten_skips_invisible:
  fixes s :: "'r app_state" and b :: 'r
  shows "(\<not> visible L \<longrightarrow>
            downloadCanvas b n (xs @ L # ys) = downloadCanvas b n (xs @ ys) \<and>
            mergeCanvas b n (xs @ L # ys) = mergeCanvas b n (xs @ ys) \<and>
            handleDownload e (s\<lparr>layers := xs @ L # ys\<rparr>) = handleDownload e (s\<lparr>layers := xs @ ys\<rparr>) \<and>
            history (handleMergeLayers e (s\<lparr>layers := xs @ L # ys\<rparr>)) =
              history (handleMergeLayers e (s\<lparr>layers := xs @ ys\<rparr>)))
       \<and> (u_visible upd = Some False \<longrightarrow>
            downloadCanvas b n (layers (handleUpdateLayer i upd s)) =
              downloadCanvas b n (layers (handleRemoveLayer i s)) \<and>
            mergeCanvas b n (layers (handleUpdateLayer i upd s)) =
              mergeCanvas b n (layers (handleRemoveLayer i s)))
       \<and> mergeCanvas b n ls = downloadCanvas b n ls"
proof (intro conjI impI)
  assume inv: "\<not> visible L"
  then have f: "filter visible (xs @ L # ys) = filter visible (xs @ ys)" by simp
  have d: "downloadCanvas b' n' (xs @ L # ys) = downloadCanvas b' n' (xs @ ys)" for b' :: 'r and n'
  proof -
    have "downloadCanvas b' n' (xs @ L # ys) = downloadCanvas b' n' (filter visible (xs @ L # ys))"
      by (rule downloadCanvas_visible)
    also have "\<dots> = downloadCanvas b' n' (filter visible (xs @ ys))"
      by (simp only: f)
    also have "\<dots> = downloadCanvas b' n' (xs @ ys)"
      by (rule downloadCanvas_visible [symmetric])
    finally show ?thesis .
  qed
  have m: "mergeCanvas b' n' (xs @ L # ys) = mergeCanvas b' n' (xs @ ys)" for b' :: 'r and n'
    by (simp only: merge_is_download d)
  show "downloadCanvas b n (xs @ L # ys) = downloadCanvas b n (xs @ ys)" by (rule d)
  show "mergeCanvas b n (xs @ L # ys) = mergeCanvas b n (xs @ ys)" by (rule m)
  have c: "currentImage (s\<lparr>layers := zs\<rparr>) = currentImage s" for zs
    by (simp add: currentImage_def)
  show "handleDownload e (s\<lparr>layers := xs @ L # ys\<rparr>) = handleDownload e (s\<lparr>layers := xs @ ys\<rparr>)"
    by (simp add: handleDownload_def c d split: option.splits)
  show "history (handleMergeLayers e (s\<lparr>layers := xs @ L # ys\<rparr>)) =
          history (handleMergeLayers e (s\<lparr>layers := xs @ ys\<rparr>))"
    by (simp add: handleMergeLayers_def c m Let_def history_addImageToHistory
          split: option.splits sum.splits)
next
  assume u: "u_visible upd = Some False"
  have l: "filter visible (layers (handleUpdateLayer i upd s)) =
           filter visible (layers (handleRemoveLayer i s))"
    using hidden_like_removed [OF u, of i "layers s"]
    by (simp add: handleUpdateLayer_def handleRemoveLayer_def Let_def)
  show d: "downloadCanvas b n (layers (handleUpdateLayer i upd s)) =
        downloadCanvas b n (layers (handleRemoveLayer i s))"
  proof -
    have "downloadCanvas b n (layers (handleUpdateLayer i upd s)) =
          downloadCanvas b n (filter visible (layers (handleUpdateLayer i upd s)))"
      by (rule downloadCanvas_visible)
    also have "\<dots> = downloadCanvas b n (filter visible (layers (handleRemoveLayer i s)))"
      by (simp only: l)
    also have "\<dots> = downloadCanvas b n (layers (handleRemoveLayer i s))"
      by (rule downloadCanvas_visible [symmetric])
    finally show ?thesis .
  qed
  show "mergeCanvas b n (layers (handleUpdateLayer i upd s)) =
        mergeCanvas b n (layers (handleRemoveLayer i s))"
    by (simp only: merge_is_download d)
next
  show "mergeCanvas b n ls = downloadCanvas b n ls" by (rule merge_is_download)
qed

theorem flatten_skips_invisible_witness:
  "\<not> visible layerB \<and> u_visible hide = Some False \<and>
   downloadCanvas (2::nat) (1000, 500) ([layerA] @ layerB # [layerC]) =
     downloadCanvas 2 (1000, 500) ([layerA] @ [layerC]) \<and>
   mergeCanvas (2::nat) (1000, 500) ([layerA] @ layerB # [layerC]) =
     mergeCanvas 2 (1000, 500) ([layerA] @ [layerC]) \<and>
   handleDownload env0 (session0\<lparr>layers := [layerA] @ layerB # [layerC]\<rparr>) =
     handleDownload env0 (session0\<lparr>layers := [layerA] @ [layerC]\<rparr>) \<and>
   downloadCanvas (2::nat) (1000, 500) (layers (handleUpdateLayer (id_l layerA) hide session_layers)) =
     downloadCanvas 2 (1000, 500) (layers (handleRemoveLayer (id_l layerA) session_layers))"
proof -
  have h1: "\<not> visible layerB" by (simp add: layerB_def)
  have h2: "u_visible hide = Some False" by (simp add: hide_def)
  note t = flatten_skips_invisible [of layerB 2 "(1000, 500)" "[layerA]" "[layerC]" env0 session0
             hide "id_l layerA" "[]"]
  note u = flatten_skips_invisible [of layerB 2 "(1000, 500)" "[layerA]" "[layerC]" env0
             session_layers hide "id_l layerA" "[]"]
  from t h1 have a: "downloadCanvas (2::nat) (1000, 500) ([layerA] @ layerB # [layerC]) =
     downloadCanvas 2 (1000, 500) ([layerA] @ [layerC])"
    and b: "mergeCanvas (2::nat) (1000, 500) ([layerA] @ layerB # [layerC]) =
     mergeCanvas 2 (1000, 500) ([layerA] @ [layerC])"
    and c: "handleDownload env0 (session0\<lparr>layers := [layerA] @ layerB # [layerC]\<rparr>) =
     handleDownload env0 (session0\<lparr>layers := [layerA] @ [layerC]\<rparr>)"
    by blast+
  from u h2 have d: "downloadCanvas (2::nat) (1000, 500)
       (layers (handleUpdateLayer (id_l layerA) hide session_layers)) =
     downloadCanvas 2 (1000, 500) (layers (handleRemoveLayer (id_l layerA) session_layers))"
    by blast
  from h1 h2 a b c d show ?thesis by blast
qed

section \<open>A collaborator that fails\<close>

text \<open>
  C8. When the service call of a content edit throws (the retouch, the filter, the
  adjustment, auto-enhance, upscale), the handler ends in the state it started from with
  two cells changed: the busy flag is cleared and the error holds the handler's message
  followed by the message of the exception. The history, the cursor and with them the
  current image are the ones before the call.
\<close>

theorem failed_edit_keeps_history:
  fixes s :: "'r app_state"
  shows "(currentImage s = Some img \<and> trim (prompt s) \<noteq> [] \<and> editHotspot s = Some hotspot \<and>
          generateEditedImage e img (prompt s) hotspot = Inl err \<longrightarrow>
            handleGenerate e s =
              s\<lparr>isLoading := False,
                error := Some (''Failed to generate the image. '' @ errorMessage err)\<rparr>)
       \<and> (currentImage s = Some img \<and> generateFilteredImage e img filterPrompt = Inl err \<longrightarrow>
            handleApplyFilter e filterPrompt s =
              s\<lparr>isLoading := False,
                error := Some (''Failed to apply the filter. '' @ errorMessage err)\<rparr>)
       \<and> (currentImage s = Some img \<and> generateAdjustedImage e img adjustmentPrompt = Inl err \<longrightarrow>
            handleApplyAdjustment e adjustmentPrompt s =
              s\<lparr>isLoading := False,
                error := Some (''Failed to apply the adjustment. '' @ errorMessage err)\<rparr>)
       \<and> (currentImage s = Some img \<and> generateAutoEnhancedImage e img = Inl err \<longrightarrow>
            handleAutoEnhance e s =
              s\<lparr>isLoading := False,
                error := Some (''Failed to auto-enhance the image. '' @ errorMessage err)\<rparr>)
       \<and> (currentImage s = Some img \<and> generateUpscaledImage e img = Inl err \<longrightarrow>
            handleUpscale e s =
              s\<lparr>isLoading := False,
                error := Some (''Failed to upscale the image. '' @ errorMessage err)\<rparr>)
       \<and> history (s\<lparr>isLoading := False, error := Some msg\<rparr>) = history s
       \<and> historyIndex (s\<lparr>isLoading := False, error := Some msg\<rparr>) = historyIndex s
       \<and> currentImage (s\<lparr>isLoading := False, error := Some msg\<rparr>) = currentImage s
       \<and> error (s\<lparr>isLoading := False, error := Some msg\<rparr>) = Some msg
       \<and> \<not> isLoading (s\<lparr>isLoading := False, error := Some msg\<rparr>)"
  by (simp add: handleGenerate_def handleApplyFilter_def handleApplyAdjustment_def
        handleAutoEnhance_def handleUpscale_def currentImage_def Let_def)

theorem failed_edit_keeps_history_witness:
  "currentImage session_hotspot = Some 2 \<and> trim (prompt session_hotspot) \<noteq> [] \<and>
   editHotspot session_hotspot = Some (200, 100) \<and>
   generateEditedImage env_failing 2 (prompt session_hotspot) (200, 100) = Inl (Error_obj ''quota'') \<and>
   generateFilteredImage env_failing 2 ''sepia'' = Inl (Error_obj ''quota'') \<and>
   generateAdjustedImage env_failing 2 ''warmer'' = Inl (Error_obj ''quota'') \<and>
   generateAutoEnhancedImage env_failing 2 = Inl Non_error \<and>
   generateUpscaledImage env_failing 2 = Inl Non_error \<and>
   handleGenerate env_failing session_hotspot =
     session_hotspot\<lparr>isLoading := False, error := Some ''Failed to generate the image. quota''\<rparr> \<and>
   handleApplyFilter env_failing ''sepia'' session_hotspot =
     session_hotspot\<lparr>isLoading := False, error := Some ''Failed to apply the filter. quota''\<rparr> \<and>
   handleApplyAdjustment env_failing ''warmer'' session_hotspot =
     session_hotspot\<lparr>isLoading := False, error := Some ''Failed to apply the adjustment. quota''\<rparr> \<and>
   handleAutoEnhance env_failing session_hotspot =
     session_hotspot\<lparr>isLoading := False,
       error := Some ''Failed to auto-enhance the image. An unknown error occurred.''\<rparr> \<and>
   handleUpscale env_failing session_hotspot =
     session_hotspot\<lparr>isLoading := False,
       error := Some ''Failed to upscale the image. An unknown error occurred.''\<rparr> \<and>
   history (handleApplyFilter env_failing ''sepia'' session_hotspot) = [0, 1, 2] \<and>
   historyIndex (handleApplyFilter env_failing ''sepia'' session_hotspot) = 2"
proof -
  have c: "currentImage session_hotspot = Some 2"
    by (simp add: currentImage_def session_hotspot_def session0_def)
  have p: "trim (prompt session_hotspot) \<noteq> []"
    by (simp add: session_hotspot_def trim_def isWhiteSpace_def)
  have h: "editHotspot session_hotspot = Some (200, 100)"
    by (simp add: session_hotspot_def)
  have g: "generateEditedImage env_failing 2 (prompt session_hotspot) (200, 100) = Inl (Error_obj ''quota'')"
    "generateFilteredImage env_failing 2 ''sepia'' = Inl (Error_obj ''quota'')"
    "generateAdjustedImage env_failing 2 ''warmer'' = Inl (Error_obj ''quota'')"
    "generateAutoEnhancedImage env_failing 2 = Inl Non_error"
    "generateUpscaledImage env_failing 2 = Inl Non_error"
    by (simp_all add: env_failing_def)
  note q = failed_edit_keeps_history [of session_hotspot 2 "(200, 100)" env_failing
             "Error_obj ''quota''" "''sepia''" "''warmer''" "''Failed to apply the filter. quota''"]
  note n = failed_edit_keeps_history [of session_hotspot 2 "(200, 100)" env_failing
             Non_error "''sepia''" "''warmer''" "''Failed to apply the filter. quota''"]
  from q c p h g have q1: "handleGenerate env_failing session_hotspot =
     session_hotspot\<lparr>isLoading := False, error := Some ''Failed to generate the image. quota''\<rparr>"
    and q2: "handleApplyFilter env_failing ''sepia'' session_hotspot =
     session_hotspot\<lparr>isLoading := False, error := Some ''Failed to apply the filter. quota''\<rparr>"
    and q3: "handleApplyAdjustment env_failing ''warmer'' session_hotspot =
     session_hotspot\<lparr>isLoading := False, error := Some ''Failed to apply the adjustment. quota''\<rparr>"
    by (simp_all add: errorMessage_def)
  from n c g have n1: "handleAutoEnhance env_failing session_hotspot =
     session_hotspot\<lparr>isLoading := False,
       error := Some ''Failed to auto-enhance the image. An unknown error occurred.''\<rparr>"
    and n2: "handleUpscale env_failing session_hotspot =
     session_hotspot\<lparr>isLoading := False,
       error := Some ''Failed to upscale the image. An unknown error occurred.''\<rparr>"
    by (simp_all add: errorMessage_def)
  from q q2 have k: "history (handleApplyFilter env_failing ''sepia'' session_hotspot) = [0, 1, 2]"
    "historyIndex (handleApplyFilter env_failing ''sepia'' session_hotspot) = 2"
    by (simp_all add: session_hotspot_def session0_def)
  from c p h g q1 q2 q3 n1 n2 k show ?thesis by blast
qed

section \<open>Layers\<close>

lemma add_and_remove_layer:
  fixes s :: "'r app_state"
  shows "layers (handleAddTextLayer t s) = layers s @ [newTextLayer t]
       \<and> selectedLayerId (handleAddTextLayer t s) = Some (id_l (newTextLayer t))
       \<and> last (renderedLayers (layers (handleAddTextLayer t s))) = newTextLayer t
       \<and> content (newTextLayer t) = ''Your Text Here''
       \<and> opacity (newTextLayer t) = 1
       \<and> visible (newTextLayer t)
       \<and> (selectedLayerId s = Some i \<longrightarrow>
            selectedLayerId (handleRemoveLayer i s) = None \<and>
            layers (handleRemoveLayer i s) = filter (\<lambda>l. id_l l \<noteq> i) (layers s))"
  by (simp add: handleAddTextLayer_def handleRemoveLayer_def renderedLayers_def newTextLayer_def
        Let_def)

lemma foldl_painted_prefix:
  assumes "\<And>cv x. \<exists>ys. painted (f cv x) = painted cv @ ys"
  shows "\<exists>ys. painted (foldl f cv xs) = painted cv @ ys"
proof (induction xs arbitrary: cv)
  case Nil
  then show ?case by simp
next
  case (Cons x xs)
  from assms obtain ys where a: "painted (f cv x) = painted cv @ ys" by blast
  from Cons.IH [of "f cv x"] obtain zs where "painted (foldl f (f cv x) xs) = painted (f cv x) @ zs"
    by blast
  with a show ?case by simp
qed

lemma new_layer_painted_first:
  "take 2 (map drawn_text (painted (downloadCanvas b n (ls @ [newTextLayer t])))) =
     [None, Some ''Your Text Here'']"
  "take 2 (map drawn_text (painted (mergeCanvas b n (ls @ [newTextLayer t])))) =
     [None, Some ''Your Text Here'']"
proof -
  let ?f = "\<lambda>cv layer.
          if visible layer \<and> type_l layer = text_kind then
            (let c1 = (ctx cv)\<lparr>globalAlpha := opacity layer,
                               ctx_font := showInt (size_l layer) @ ''px '' @ font layer,
                               fillStyle := color layer,
                               textBaseline := ''top''\<rparr>
             in cv\<lparr>ctx := c1,
                   painted := painted cv @
                     [FillText (content layer) (fst (position layer)) (snd (position layer)) c1]\<rparr>)
          else (cv :: 'a Canvas)"
  let ?init = "\<lparr>canvas_width = canvasSize 300 (of_nat (fst n)),
        canvas_height = canvasSize 150 (of_nat (snd n)),
        ctx = initial_ctx, painted = [DrawImage b 0 0]\<rparr>"
  have step: "\<And>cv x. \<exists>ys. painted (?f cv x) = painted cv @ ys"
    by (simp add: Let_def)
  have d: "downloadCanvas b n (ls @ [newTextLayer t]) = foldl ?f (?f ?init (newTextLayer t)) (rev ls)"
    by (simp add: downloadCanvas_def)
  from foldl_painted_prefix [of ?f "?f ?init (newTextLayer t)" "rev ls", OF step]
  obtain ys where "painted (foldl ?f (?f ?init (newTextLayer t)) (rev ls)) =
      painted (?f ?init (newTextLayer t)) @ ys" by blast
  with d have p: "painted (downloadCanvas b n (ls @ [newTextLayer t])) =
      painted (?f ?init (newTextLayer t)) @ ys" by simp
  show "take 2 (map drawn_text (painted (downloadCanvas b n (ls @ [newTextLayer t])))) =
     [None, Some ''Your Text Here'']"
    unfolding p by (simp add: newTextLayer_def Let_def)
  then show "take 2 (map drawn_text (painted (mergeCanvas b n (ls @ [newTextLayer t])))) =
     [None, Some ''Your Text Here'']"
    by (simp add: merge_is_download)
qed

text \<open>
  C9. The claim is that a new text layer is appended, selected, and at the top of the
  paint order, and that removing the selected layer clears the selection. The layer is
  appended and selected, and the removal clears the selection; on screen the new layer
  is the last overlay and lies over the others. In the paint order of a flattened image
  it is at the other end: \<open>handleDownload\<close> and \<open>handleMergeLayers\<close> paint the reversed
  sequence, so the new layer is painted first and every older visible layer is painted
  over it. Evaluated on the layers Title, Hidden (not visible) and Footer, after a layer
  is added: the overlays on screen are Title, Footer and the new layer, in this order
  from below; the canvas of the download and that of the merge draw the image, then the
  new layer, then Footer, then Title.
\<close>

theorem new_layer_painted_beneath:
  "layers (handleAddTextLayer 4 session_layers) = [layerA, layerB, layerC, newTextLayer 4] \<and>
   selectedLayerId (handleAddTextLayer 4 session_layers) = Some (id_l (newTextLayer 4)) \<and>
   renderedLayers (layers (handleAddTextLayer 4 session_layers)) =
     [layerA, layerC, newTextLayer 4] \<and>
   map drawn_text
     (painted (downloadCanvas (2::nat) (1000, 500) (layers (handleAddTextLayer 4 session_layers)))) =
     [None, Some ''Your Text Here'', Some ''Footer'', Some ''Title''] \<and>
   map drawn_text
     (painted (mergeCanvas (2::nat) (1000, 500) (layers (handleAddTextLayer 4 session_layers)))) =
     [None, Some ''Your Text Here'', Some ''Footer'', Some ''Title'']"
  by (simp add: handleAddTextLayer_def session_layers_def session0_def renderedLayers_def
        layerA_def layerB_def layerC_def newTextLayer_def downloadCanvas_def mergeCanvas_def
        Let_def)
end
